theory Spec2Isabelle
  imports Main "HOL-Library.Sublist"
begin

section \<open>The playlstr client: data model\<close>

text \<open>
  The program is \<^verbatim>\<open>client.py\<close>. Everything it does besides computing is made
  explicit: the file system, the console, the random generator and the HTTP
  server live in a \<open>world\<close> that every function takes and returns; what the
  Python standard library, \<^verbatim>\<open>requests\<close> and the \<^verbatim>\<open>importer\<close> module compute is a
  field of an \<open>env\<close> record that the functions take as a parameter.
\<close>

subsection \<open>JSON values and Python dicts\<close>

text \<open>
  What \<^verbatim>\<open>json.loads\<close> returns. A dict keeps its insertion order, so it is an
  association list with distinct keys. Numbers are integers here.
\<close>

datatype json =
    JNull
  | JBool bool
  | JNum int
  | JStr string
  | JArr "json list"
  | JObj "(string \<times> json) list"

type_synonym settings = "(string \<times> json) list"

text \<open>Python truthiness of a decoded value; \<^verbatim>\<open>None\<close> is \<open>JNull\<close>.\<close>

fun truthy :: "json \<Rightarrow> bool" where
  "truthy JNull = False"
| "truthy (JBool b) = b"
| "truthy (JNum n) = (n \<noteq> 0)"
| "truthy (JStr s) = (s \<noteq> [])"
| "truthy (JArr xs) = (xs \<noteq> [])"
| "truthy (JObj kvs) = (kvs \<noteq> [])"

text \<open>\<^verbatim>\<open>d.get(k)\<close>: the value, or \<^verbatim>\<open>None\<close> when the key is absent.\<close>

definition dict_get :: "(string \<times> json) list \<Rightarrow> string \<Rightarrow> json" where
  "dict_get d k = (case map_of d k of None \<Rightarrow> JNull | Some v \<Rightarrow> v)"

text \<open>\<^verbatim>\<open>d[k] = v\<close>: replaces the value in place, or appends a new key.\<close>

fun dict_set :: "(string \<times> 'v) list \<Rightarrow> string \<Rightarrow> 'v \<Rightarrow> (string \<times> 'v) list" where
  "dict_set [] k v = [(k, v)]"
| "dict_set ((k', v') # d) k v =
     (if k' = k then (k, v) # d else (k', v') # dict_set d k v)"

subsection \<open>Exceptions\<close>

text \<open>
  The exceptions the program can meet. \<open>SystemExit\<close> is not among them: a call of
  \<^verbatim>\<open>sys.exit\<close> is the outcome \<open>Exited\<close> of the run. \<open>Fault\<close> stands for the faults
  the program never catches (a transport error of \<^verbatim>\<open>requests\<close>, an error inside
  a parser).
\<close>

datatype error =
    JSONDecodeError
  | KeyError string
  | ValueError
  | AttributeError
  | TypeError
  | ConnectionError string
  | FileNotFoundError string
  | EOFError
  | Fault string

datatype outcome = Finished | Exited int | Raised error

subsection \<open>Command line arguments\<close>

text \<open>
  \<^verbatim>\<open>parse_args\<close> returns the \<^verbatim>\<open>__dict__\<close> of the parsed namespace: a dict from the
  destination names of the seven arguments to their values. \<open>cli\<close> is what
  \<^verbatim>\<open>argparse\<close> read from the command line (defaults filled in).
\<close>

datatype argval = AStr string | ABool bool | AList "string list"

type_synonym args = "(string \<times> argval) list"

record cli =
  cli_playlist :: "string list"
  cli_add_missing :: bool
  cli_hash :: bool
  cli_url :: string
  cli_link :: string
  cli_m3u_ext :: bool
  cli_settings_file :: string

definition parse_args :: "cli \<Rightarrow> args" where
  "parse_args c =
     [(''playlist'', AList (cli_playlist c)),
      (''add_missing'', ABool (cli_add_missing c)),
      (''hash'', ABool (cli_hash c)),
      (''url'', AStr (cli_url c)),
      (''link'', AStr (cli_link c)),
      (''m3u_ext'', ABool (cli_m3u_ext c)),
      (''settings_file'', AStr (cli_settings_file c))]"

text \<open>\<^verbatim>\<open>args[k]\<close> where the program uses the value as a string, and as a list.\<close>

definition arg_str :: "args \<Rightarrow> string \<Rightarrow> error + string" where
  "arg_str a k =
     (case map_of a k of
        None \<Rightarrow> Inl (KeyError k)
      | Some (AStr s) \<Rightarrow> Inr s
      | Some _ \<Rightarrow> Inl TypeError)"

definition arg_list :: "args \<Rightarrow> string \<Rightarrow> error + string list" where
  "arg_list a k =
     (case map_of a k of
        None \<Rightarrow> Inl (KeyError k)
      | Some (AList xs) \<Rightarrow> Inr xs
      | Some _ \<Rightarrow> Inl TypeError)"

subsection \<open>The world and the environment\<close>

record request =
  req_url :: string
  req_data :: "(string \<times> json) list"

record response =
  status_code :: int
  resp_text :: string
  resp_reason :: string

text \<open>
  \<open>files\<close> maps a path to the contents of the regular file there, \<open>stdin\<close> holds
  the lines still to be read, \<open>stdout\<close> the lines printed so far, \<open>sent\<close> the
  requests posted so far, \<open>rand_pos\<close> how many random draws were made.
\<close>

record world =
  files :: "string \<rightharpoonup> string"
  stdin :: "string list"
  stdout :: "string list"
  sent :: "request list"
  rand_pos :: nat

text \<open>
  \<open>server h q\<close> is what \<^verbatim>\<open>requests.post\<close> returns (or raises) for the request \<open>q\<close>
  after the requests \<open>h\<close>; \<open>importer\<close> maps an attribute name of the module
  \<^verbatim>\<open>importer\<close> to the parser stored there, a function of the file's contents and
  of \<^verbatim>\<open>args\<close>; \<open>rand i\<close> is the \<open>i\<close>-th draw of the random generator.
\<close>

record env =
  json_loads :: "string \<Rightarrow> error + json"
  json_dumps :: "json \<Rightarrow> string"
  repr_args :: "args \<Rightarrow> string"
  server :: "request list \<Rightarrow> request \<Rightarrow> error + response"
  importer :: "string \<rightharpoonup> (string \<Rightarrow> args \<Rightarrow> error + json)"
  rand :: "nat \<Rightarrow> nat"
  argv0 :: string

definition print :: "string \<Rightarrow> world \<Rightarrow> world" where
  "print s w = w\<lparr>stdout := stdout w @ [s]\<rparr>"

text \<open>\<^verbatim>\<open>input()\<close>: the next line of standard input, \<^verbatim>\<open>EOFError\<close> when there is none.\<close>

definition input :: "world \<Rightarrow> (error + string) \<times> world" where
  "input w =
     (case stdin w of
        [] \<Rightarrow> (Inl EOFError, w)
      | l # ls \<Rightarrow> (Inr l, w\<lparr>stdin := ls\<rparr>))"

text \<open>\<^verbatim>\<open>open(path, 'w').close()\<close> and \<^verbatim>\<open>open(path, 'w+')\<close> followed by one write.\<close>

definition write_file :: "string \<Rightarrow> string \<Rightarrow> world \<Rightarrow> world" where
  "write_file path s w = w\<lparr>files := (files w)(path \<mapsto> s)\<rparr>"

text \<open>
  An open file: its contents and the read position. \<^verbatim>\<open>read()\<close> returns what
  lies after the position and moves the position to the end.
\<close>

record handle =
  h_content :: string
  h_pos :: nat

definition fread :: "handle \<Rightarrow> string \<times> handle" where
  "fread h = (drop (h_pos h) (h_content h), h\<lparr>h_pos := length (h_content h)\<rparr>)"

section \<open>The settings store\<close>

definition alphabet :: string where
  "alphabet = ''abcdefghijklmnopqrstuvwxyz0123456789''"

text \<open>\<^verbatim>\<open>random.choice(seq)\<close> with the next draw of the generator.\<close>

definition random_choice :: "env \<Rightarrow> string \<Rightarrow> nat \<Rightarrow> char" where
  "random_choice e seq i = seq ! (rand e i mod length seq)"

definition random_client_id :: "env \<Rightarrow> world \<Rightarrow> string \<times> world" where
  "random_client_id e w =
     (map (\<lambda>i. random_choice e alphabet (rand_pos w + i)) [0..<20],
      w\<lparr>rand_pos := rand_pos w + 20\<rparr>)"

text \<open>
  \<^verbatim>\<open>load_settings\<close>. The file is created empty when it is absent, then read
  twice through the same handle: once for the emptiness test and once more for
  the argument of \<^verbatim>\<open>json.loads\<close>. A decoded value that is no dict has no \<^verbatim>\<open>get\<close>.
\<close>

definition load_settings :: "env \<Rightarrow> string \<Rightarrow> world \<Rightarrow> (error + settings) \<times> world" where
  "load_settings e settings_file w =
     (let w1 = (if files w settings_file = None then write_file settings_file [] w else w);
          sfile = \<lparr>h_content = the (files w1 settings_file), h_pos = 0\<rparr>;
          (settings_str, sfile1) = fread sfile
      in if length settings_str > 0 then
           (case json_loads e (fst (fread sfile1)) of
              Inl err \<Rightarrow> (Inl err, w1)
            | Inr (JObj settings) \<Rightarrow>
                if truthy (dict_get settings ''id'') then (Inr settings, w1)
                else (let (cid, w2) = random_client_id e w1
                      in (Inr (dict_set settings ''id'' (JStr cid)), w2))
            | Inr _ \<Rightarrow> (Inl AttributeError, w1))
         else (let (cid, w2) = random_client_id e w1
               in (Inr [(''id'', JStr cid)], w2)))"

definition save_settings :: "env \<Rightarrow> settings \<Rightarrow> string \<Rightarrow> world \<Rightarrow> world" where
  "save_settings e settings settings_file w =
     write_file settings_file (json_dumps e (JObj settings)) w"

section \<open>String operations of Python\<close>

text \<open>\<^verbatim>\<open>s.split(c)\<close> for a separator of one character: one part more than separators.\<close>

fun split_on :: "char \<Rightarrow> string \<Rightarrow> string list" where
  "split_on c [] = [[]]"
| "split_on c (x # xs) =
     (if x = c then [] # split_on c xs
      else (case split_on c xs of
              [] \<Rightarrow> [[x]]
            | p # ps \<Rightarrow> (x # p) # ps))"

text \<open>\<^verbatim>\<open>s.rstrip(c)\<close>: every trailing occurrence of the character is removed.\<close>

definition rstrip :: "char \<Rightarrow> string \<Rightarrow> string" where
  "rstrip c s = rev (dropWhile (\<lambda>x. x = c) (rev s))"

text \<open>\<^verbatim>\<open>s.lower()\<close> on ASCII text.\<close>

definition lower_char :: "char \<Rightarrow> char" where
  "lower_char c =
     (case map_of (zip ''ABCDEFGHIJKLMNOPQRSTUVWXYZ'' ''abcdefghijklmnopqrstuvwxyz'') c of
        None \<Rightarrow> c
      | Some l \<Rightarrow> l)"

definition lower :: "string \<Rightarrow> string" where
  "lower s = map lower_char s"

section \<open>Linking\<close>

definition LINK_CODE_HELP_URL :: string where
  "LINK_CODE_HELP_URL = ''http://127.0.0.1:8000/link''"

text \<open>\<^verbatim>\<open>requests.post(url, data=data)\<close>: the request is recorded, the server answers.\<close>

definition post :: "env \<Rightarrow> string \<Rightarrow> (string \<times> json) list \<Rightarrow> world \<Rightarrow> (error + response) \<times> world" where
  "post e url data w =
     (let q = \<lparr>req_url = url, req_data = data\<rparr>
      in (server e (sent w) q, w\<lparr>sent := sent w @ [q]\<rparr>))"

definition link_account :: "env \<Rightarrow> string \<Rightarrow> string \<Rightarrow> json \<Rightarrow> world \<Rightarrow> (error + unit) \<times> world" where
  "link_account e link_code url client_id w =
     (case post e (url @ ''client-link/'') [(''link'', JStr link_code), (''client'', client_id)] w of
        (Inl err, w1) \<Rightarrow> (Inl err, w1)
      | (Inr r, w1) \<Rightarrow>
          if status_code r = 200 then (Inr (), w1)
          else (Inl (ConnectionError (resp_text r)), w1))"

section \<open>The run\<close>

text \<open>
  \<^verbatim>\<open>main\<close> is cut at its comments into the part that loads the settings, the
  part that links the account, the body of the loop over the playlists and the
  loop. A part returns \<open>Inl\<close> of an outcome when the run ends there.
\<close>

text \<open>Lines 99 to 109: load the settings, offer to reset a malformed file.\<close>

definition load_stage :: "env \<Rightarrow> args \<Rightarrow> world \<Rightarrow> (outcome + settings) \<times> world" where
  "load_stage e args w =
     (case arg_str args ''settings_file'' of
        Inl err \<Rightarrow> (Inl (Raised err), w)
      | Inr sf \<Rightarrow>
         (case load_settings e sf w of
            (Inr settings, w1) \<Rightarrow> (Inr settings, w1)
          | (Inl err, w1) \<Rightarrow>
              if err = JSONDecodeError then
                (let w2 = print (''Error loading settings from '' @ sf @
                                 '' (malformed file). Delete '' @ sf @ '' to fix this? (y/N)'') w1
                 in case input w2 of
                      (Inl err1, w3) \<Rightarrow> (Inl (Raised err1), w3)
                    | (Inr answer, w3) \<Rightarrow>
                        if lower answer = ''y'' then
                          (case arg_str args ''settings'' of
                             Inl err2 \<Rightarrow> (Inl (Raised err2), w3)
                           | Inr p \<Rightarrow>
                              (case load_settings e sf (write_file p [] w3) of
                                 (Inl err3, w5) \<Rightarrow> (Inl (Raised err3), w5)
                               | (Inr settings, w5) \<Rightarrow>
                                   (Inr settings, save_settings e settings sf w5)))
                        else (Inl (Exited 0), w3))
              else (Inl (Raised err), w1)))"

text \<open>Lines 111 to 119: link the account when a link code was given.\<close>

definition link_stage :: "env \<Rightarrow> args \<Rightarrow> settings \<Rightarrow> world \<Rightarrow> (outcome + settings) \<times> world" where
  "link_stage e args settings w =
     (case arg_str args ''link'' of
        Inl err \<Rightarrow> (Inl (Raised err), w)
      | Inr link \<Rightarrow>
          if link \<noteq> [] then
            (case arg_str args ''url'' of
               Inl err \<Rightarrow> (Inl (Raised err), w)
             | Inr url \<Rightarrow>
                (case map_of settings ''id'' of
                   None \<Rightarrow> (Inl (Raised (KeyError ''id'')), w)
                 | Some cid \<Rightarrow>
                    (case link_account e link url cid w of
                       (Inl err, w1) \<Rightarrow>
                         (case err of
                            ConnectionError msg \<Rightarrow>
                              (Inl (Exited 1), print (''Error linking account ('' @ msg @ '').'') w1)
                          | _ \<Rightarrow> (Inl (Raised err), w1))
                     | (Inr u, w1) \<Rightarrow>
                         (let w2 = print ''Link successful'' w1;
                              settings1 = dict_set settings ''link'' (JStr link)
                          in case arg_str args ''settings_file'' of
                               Inl err \<Rightarrow> (Inl (Raised err), w2)
                             | Inr sf \<Rightarrow> (Inr settings1, save_settings e settings1 sf w2)))))
          else (Inr settings, w))"

text \<open>Lines 127 to 142: the body of the loop, \<open>Inr\<close> when the loop goes on.\<close>

definition process_playlist :: "env \<Rightarrow> args \<Rightarrow> settings \<Rightarrow> string \<Rightarrow> world \<Rightarrow> (error + unit) \<times> world" where
  "process_playlist e args settings playlist w =
     (case split_on CHR ''.'' playlist of
        [name, filetype] \<Rightarrow>
          (case importer e (''import_'' @ filetype) of
             None \<Rightarrow> (Inr (), print (''Invalid filetype '' @ [CHR 0x22] @ ''.'' @ filetype @ [CHR 0x22]) w)
           | Some parse_playlist \<Rightarrow>
              (case files w playlist of
                 None \<Rightarrow> (Inl (FileNotFoundError playlist), w)
               | Some content \<Rightarrow>
                  (case parse_playlist content args of
                     Inl err \<Rightarrow> (Inl err, w)
                   | Inr tracks \<Rightarrow>
                      (case arg_str args ''url'' of
                         Inl err \<Rightarrow> (Inl err, w)
                       | Inr url \<Rightarrow>
                          (case map_of settings ''id'' of
                             None \<Rightarrow> (Inl (KeyError ''id''), w)
                           | Some cid \<Rightarrow>
                              (case post e (url @ ''/client-import/'')
                                      [(''playlist_name'', JStr name),
                                       (''tracks'', JStr (json_dumps e tracks)),
                                       (''client_id'', cid)] w of
                                 (Inl err, w1) \<Rightarrow> (Inl err, w1)
                               | (Inr r, w1) \<Rightarrow>
                                   if status_code r \<noteq> 200 then
                                     (Inr (), print (''Error adding '' @ playlist @ '': '' @ resp_reason r) w1)
                                   else
                                     (Inr (), print (''Imported '' @ playlist @ '' to '' @ url @
                                                     ''/list/'' @ resp_text r @ ''/'') w1)))))))
      | _ \<Rightarrow> (Inl ValueError, w))"

text \<open>Line 126: the loop; an exception of the body ends it.\<close>

fun upload_loop :: "env \<Rightarrow> args \<Rightarrow> settings \<Rightarrow> string list \<Rightarrow> world \<Rightarrow> outcome \<times> world" where
  "upload_loop e args settings [] w = (Finished, w)"
| "upload_loop e args settings (playlist # rest) w =
     (case process_playlist e args settings playlist w of
        (Inl err, w1) \<Rightarrow> (Raised err, w1)
      | (Inr u, w1) \<Rightarrow> upload_loop e args settings rest w1)"

definition main :: "env \<Rightarrow> cli \<Rightarrow> world \<Rightarrow> outcome \<times> world" where
  "main e c w =
     (let args = parse_args c;
          w1 = print (repr_args e args) w
      in case arg_list args ''playlist'' of
           Inl err \<Rightarrow> (Raised err, w1)
         | Inr playlists \<Rightarrow>
            if length playlists = 0 then
              (Exited 0, print ''Specify at least one playlist for importing'' w1)
            else
              (case load_stage e args w1 of
                 (Inl out, w2) \<Rightarrow> (out, w2)
               | (Inr settings, w2) \<Rightarrow>
                  (case link_stage e args settings w2 of
                     (Inl out, w3) \<Rightarrow> (out, w3)
                   | (Inr settings1, w3) \<Rightarrow>
                      if \<not> truthy (dict_get settings1 ''link'') then
                        (Exited 0,
                         print (''No account linked. Get a link code from '' @ LINK_CODE_HELP_URL @
                                '' and run '' @ argv0 e @ '' -l [code]'') w3)
                      else
                        (case arg_str args ''url'' of
                           Inl err \<Rightarrow> (Raised err, w3)
                         | Inr url \<Rightarrow>
                            (let args1 = dict_set args ''url'' (AStr (rstrip CHR ''/'' url))
                             in case arg_list args1 ''playlist'' of
                                  Inl err \<Rightarrow> (Raised err, w3)
                                | Inr playlists1 \<Rightarrow> upload_loop e args1 settings1 playlists1 w3)))))"

section \<open>A sample environment\<close>

text \<open>
  One concrete environment, command line and world, on which the theorems
  below are run. Its \<^verbatim>\<open>json.dumps\<close> writes flat dicts and lists of strings, its
  \<^verbatim>\<open>json.loads\<close> reads back the one settings text \<open>demo_settings\<close> is written as
  and refuses everything else, the empty text included. Its server accepts the
  link code \<open>good\<close> and the playlist named \<open>mix\<close>.
\<close>

definition quote :: "string \<Rightarrow> string" where
  "quote s = CHR 0x22 # s @ [CHR 0x22]"

fun join :: "string \<Rightarrow> string list \<Rightarrow> string" where
  "join sep [] = []"
| "join sep [x] = x"
| "join sep (x # y # ys) = x @ sep @ join sep (y # ys)"

definition demo_atom :: "json \<Rightarrow> string" where
  "demo_atom v =
     (case v of
        JStr s \<Rightarrow> quote s
      | JBool b \<Rightarrow> (if b then ''true'' else ''false'')
      | _ \<Rightarrow> ''null'')"

definition demo_dumps :: "json \<Rightarrow> string" where
  "demo_dumps v =
     (case v of
        JObj kvs \<Rightarrow> ''{'' @ join '', '' (map (\<lambda>(k, x). quote k @ '': '' @ demo_atom x) kvs) @ ''}''
      | JArr xs \<Rightarrow> ''['' @ join '', '' (map demo_atom xs) @ '']''
      | _ \<Rightarrow> demo_atom v)"

definition demo_settings :: settings where
  "demo_settings = [(''id'', JStr ''abcdefghij0123456789'')]"

definition demo_loads :: "string \<Rightarrow> error + json" where
  "demo_loads s =
     (if s = demo_dumps (JObj demo_settings) then Inr (JObj demo_settings)
      else Inl JSONDecodeError)"

definition demo_server :: "request list \<Rightarrow> request \<Rightarrow> error + response" where
  "demo_server h q =
     (if req_url q = ''http://127.0.0.1:8000/client-link/'' then
        (if map_of (req_data q) ''link'' = Some (JStr ''good'')
         then Inr \<lparr>status_code = 200, resp_text = ''linked'', resp_reason = ''OK''\<rparr>
         else Inr \<lparr>status_code = 403, resp_text = ''bad code'', resp_reason = ''Forbidden''\<rparr>)
      else
        (if map_of (req_data q) ''playlist_name'' = Some (JStr ''mix'')
         then Inr \<lparr>status_code = 200, resp_text = ''abc123'', resp_reason = ''OK''\<rparr>
         else Inr \<lparr>status_code = 500, resp_text = ''server error'',
                   resp_reason = ''Internal Server Error''\<rparr>))"

definition demo_parser :: "string \<Rightarrow> args \<Rightarrow> error + json" where
  "demo_parser content a = Inr (JArr [JStr content])"

definition demo_env :: env where
  "demo_env =
     \<lparr>json_loads = demo_loads,
      json_dumps = demo_dumps,
      repr_args = (\<lambda>a. ''args''),
      server = demo_server,
      importer = [''import_m3u'' \<mapsto> demo_parser],
      rand = (\<lambda>i. i),
      argv0 = ''client.py''\<rparr>"

definition demo_cli :: cli where
  "demo_cli =
     \<lparr>cli_playlist = [''mix.m3u'', ''rock.m3u''],
      cli_add_missing = False,
      cli_hash = False,
      cli_url = ''http://127.0.0.1:8000/'',
      cli_link = ''good'',
      cli_m3u_ext = False,
      cli_settings_file = ''settings.txt''\<rparr>"

definition demo_world :: world where
  "demo_world =
     \<lparr>files = [''mix.m3u'' \<mapsto> ''a.mp3'', ''rock.m3u'' \<mapsto> ''b.mp3''],
      stdin = [],
      stdout = [],
      sent = [],
      rand_pos = 0\<rparr>"

section \<open>Basic facts\<close>

lemmas demo_defs =
  demo_env_def demo_cli_def demo_world_def demo_server_def demo_parser_def
  demo_dumps_def demo_atom_def demo_loads_def demo_settings_def quote_def

lemmas run_defs =
  main_def load_stage_def link_stage_def process_playlist_def load_settings_def
  save_settings_def link_account_def post_def random_client_id_def print_def
  input_def write_file_def fread_def parse_args_def arg_str_def arg_list_def
  dict_get_def rstrip_def lower_def lower_char_def LINK_CODE_HELP_URL_def Let_def

lemma arg_str_parse_args:
  "arg_str (parse_args c) ''settings_file'' = Inr (cli_settings_file c)"
  "arg_str (parse_args c) ''link'' = Inr (cli_link c)"
  "arg_str (parse_args c) ''url'' = Inr (cli_url c)"
  "arg_str (parse_args c) ''settings'' = Inl (KeyError ''settings'')"
  by (simp_all add: arg_str_def parse_args_def)

lemma arg_list_parse_args:
  "arg_list (parse_args c) ''playlist'' = Inr (cli_playlist c)"
  by (simp add: arg_list_def parse_args_def)

lemma args_url_stripped:
  "arg_str (dict_set (parse_args c) ''url'' (AStr u)) ''url'' = Inr u"
  "arg_list (dict_set (parse_args c) ''url'' (AStr u)) ''playlist'' = Inr (cli_playlist c)"
  by (simp_all add: arg_str_def arg_list_def parse_args_def)

lemma load_settings_nonempty:
  assumes "files w p = Some content" "content \<noteq> []" "json_loads e [] = Inl JSONDecodeError"
  shows "load_settings e p w = (Inl JSONDecodeError, w)"
  using assms by (simp add: load_settings_def fread_def)

lemma map_of_dict_set: "map_of (dict_set d k v) k = Some v"
  by (induction d) auto

lemma dict_get_dict_set: "dict_get (dict_set d k v) k = v"
  by (simp add: dict_get_def map_of_dict_set)

lemma truthy_dict_get: "truthy (dict_get d k) \<Longrightarrow> map_of d k \<noteq> None"
  by (auto simp: dict_get_def split: option.splits)

lemma load_settings_sent: "sent (snd (load_settings e p w)) = sent w"
  by (auto simp: load_settings_def random_client_id_def write_file_def Let_def
           split: sum.splits json.splits prod.splits)

lemma load_settings_id:
  "load_settings e p w = (Inr s, w') \<Longrightarrow> map_of s ''id'' \<noteq> None"
  by (auto simp: load_settings_def random_client_id_def Let_def map_of_dict_set
           dest: truthy_dict_get
           split: sum.splits json.splits prod.splits if_splits)

lemma load_stage_sent: "sent (snd (load_stage e a w)) = sent w"
proof -
  have a: "\<And>p w. sent (snd (load_settings e p w)) = sent w" by (rule load_settings_sent)
  have b: "\<And>p w s w'. load_settings e p w = (s, w') \<Longrightarrow> sent w' = sent w"
    using a by (metis snd_conv)
  show ?thesis
    by (auto simp: load_stage_def Let_def print_def input_def write_file_def save_settings_def
             dest!: b split: sum.splits prod.splits list.splits)
qed

lemma load_stage_id:
  "load_stage e a w = (Inr s, w') \<Longrightarrow> map_of s ''id'' \<noteq> None"
  by (auto simp: load_stage_def Let_def 
           dest: load_settings_id
           split: sum.splits prod.splits if_splits)


lemma link_account_fail:
  assumes "server e (sent w) \<lparr>req_url = url @ ''client-link/'',
             req_data = [(''link'', JStr code), (''client'', cid)]\<rparr> = Inr r"
      and "status_code r \<noteq> 200"
  shows "link_account e code url cid w =
           (Inl (ConnectionError (resp_text r)),
            w\<lparr>sent := sent w @ [\<lparr>req_url = url @ ''client-link/'',
                 req_data = [(''link'', JStr code), (''client'', cid)]\<rparr>]\<rparr>)"
  using assms by (simp add: link_account_def post_def Let_def)

lemma link_account_ok:
  assumes "server e (sent w) \<lparr>req_url = url @ ''client-link/'',
             req_data = [(''link'', JStr code), (''client'', cid)]\<rparr> = Inr r"
      and "status_code r = 200"
  shows "link_account e code url cid w =
           (Inr (),
            w\<lparr>sent := sent w @ [\<lparr>req_url = url @ ''client-link/'',
                 req_data = [(''link'', JStr code), (''client'', cid)]\<rparr>]\<rparr>)"
  using assms by (simp add: link_account_def post_def Let_def)

lemma link_account_sent:
  "sent (snd (link_account e code url cid w)) =
     sent w @ [\<lparr>req_url = url @ ''client-link/'',
                req_data = [(''link'', JStr code), (''client'', cid)]\<rparr>]"
  by (simp add: link_account_def post_def Let_def split: sum.splits)

lemma link_stage_no_code:
  "cli_link c = [] \<Longrightarrow> link_stage e (parse_args c) s w = (Inr s, w)"
  by (simp add: link_stage_def arg_str_parse_args)

lemma link_stage_linked:
  assumes "cli_link c \<noteq> []" "link_stage e (parse_args c) s w = (Inr s1, w1)"
  shows "s1 = dict_set s ''link'' (JStr (cli_link c))"
  using assms
  by (auto simp: link_stage_def arg_str_parse_args Let_def
           split: option.splits sum.splits prod.splits error.splits)

lemma main_upload:
  assumes "cli_playlist c \<noteq> []"
      and "load_stage e (parse_args c) (print (repr_args e (parse_args c)) w) = (Inr s, w2)"
      and "link_stage e (parse_args c) s w2 = (Inr s1, w3)"
      and "truthy (dict_get s1 ''link'')"
  shows "main e c w =
           upload_loop e (dict_set (parse_args c) ''url'' (AStr (rstrip CHR ''/'' (cli_url c))))
             s1 (cli_playlist c) w3"
  using assms
  by (simp add: main_def Let_def arg_list_parse_args arg_str_parse_args args_url_stripped)

lemma upload_loop_append:
  "upload_loop e a s (xs @ ys) w =
     (case upload_loop e a s xs w of
        (Finished, w1) \<Rightarrow> upload_loop e a s ys w1
      | (out, w1) \<Rightarrow> (out, w1))"
proof (induction xs arbitrary: w)
  case Nil
  show ?case by simp
next
  case (Cons x xs)
  show ?case
    by (cases "process_playlist e a s x w") (simp add: Cons.IH split: sum.splits)
qed

lemma length_split_on: "length (split_on c s) = Suc (count_list s c)"
  by (induction s) (auto split: list.splits)

lemma split_on_two:
  "(\<exists>name filetype. split_on c s = [name, filetype]) \<longleftrightarrow> count_list s c = 1"
proof
  assume "\<exists>name filetype. split_on c s = [name, filetype]"
  then have "length (split_on c s) = 2" by auto
  then show "count_list s c = 1" by (simp add: length_split_on)
next
  assume "count_list s c = 1"
  then have "length (split_on c s) = 2" by (simp add: length_split_on)
  then show "\<exists>name filetype. split_on c s = [name, filetype]"
    by (cases "split_on c s" rule: list.exhaust) (auto simp: length_Suc_conv)
qed

lemma process_playlist_bad_name:
  assumes "count_list playlist CHR ''.'' \<noteq> 1"
  shows "process_playlist e a s playlist w = (Inl ValueError, w)"
proof -
  have "\<not> (\<exists>name filetype. split_on CHR ''.'' playlist = [name, filetype])"
    using assms by (simp add: split_on_two)
  then show ?thesis
    by (auto simp: process_playlist_def split: list.splits)
qed

lemma process_playlist_unknown:
  assumes "split_on CHR ''.'' playlist = [name, filetype]"
      and "importer e (''import_'' @ filetype) = None"
  shows "process_playlist e a s playlist w =
           (Inr (), print (''Invalid filetype '' @ [CHR 0x22] @ ''.'' @ filetype @ [CHR 0x22]) w)"
  using assms by (simp add: process_playlist_def)

lemma process_playlist_posted:
  assumes "split_on CHR ''.'' playlist = [name, filetype]"
      and "importer e (''import_'' @ filetype) = Some parse"
      and "files w playlist = Some content"
      and "parse content a = Inr tracks"
      and "arg_str a ''url'' = Inr url"
      and "map_of s ''id'' = Some cid"
  shows "process_playlist e a s playlist w =
           (case server e (sent w)
                   \<lparr>req_url = url @ ''/client-import/'',
                    req_data = [(''playlist_name'', JStr name),
                                (''tracks'', JStr (json_dumps e tracks)),
                                (''client_id'', cid)]\<rparr> of
              Inl err \<Rightarrow>
                (Inl err,
                 w\<lparr>sent := sent w @
                    [\<lparr>req_url = url @ ''/client-import/'',
                      req_data = [(''playlist_name'', JStr name),
                                  (''tracks'', JStr (json_dumps e tracks)),
                                  (''client_id'', cid)]\<rparr>]\<rparr>)
            | Inr r \<Rightarrow>
                (Inr (),
                 print (if status_code r \<noteq> 200
                        then ''Error adding '' @ playlist @ '': '' @ resp_reason r
                        else ''Imported '' @ playlist @ '' to '' @ url @ ''/list/'' @ resp_text r @ ''/'')
                   (w\<lparr>sent := sent w @
                      [\<lparr>req_url = url @ ''/client-import/'',
                        req_data = [(''playlist_name'', JStr name),
                                    (''tracks'', JStr (json_dumps e tracks)),
                                    (''client_id'', cid)]\<rparr>]\<rparr>)))"
  using assms by (simp add: process_playlist_def post_def Let_def split: sum.splits)

lemma process_playlist_urls:
  assumes "arg_str a ''url'' = Inr url"
  shows "\<exists>extra. sent (snd (process_playlist e a s playlist w)) = sent w @ extra
           \<and> (\<forall>q\<in>set extra. req_url q = url @ ''/client-import/'')"
  using assms
  by (auto simp: process_playlist_def post_def Let_def print_def
           split: list.splits option.splits sum.splits)

lemma upload_loop_urls:
  assumes "arg_str a ''url'' = Inr url"
  shows "\<exists>extra. sent (snd (upload_loop e a s ps w)) = sent w @ extra
           \<and> (\<forall>q\<in>set extra. req_url q = url @ ''/client-import/'')"
proof (induction ps arbitrary: w)
  case Nil
  show ?case by simp
next
  case (Cons p ps)
  obtain res w1 where step: "process_playlist e a s p w = (res, w1)"
    by (cases "process_playlist e a s p w")
  obtain x1 where x1: "sent w1 = sent w @ x1" "\<forall>q\<in>set x1. req_url q = url @ ''/client-import/''"
    using process_playlist_urls [OF assms, of e s p w] step by auto
  show ?case
  proof (cases res)
    case (Inl err)
    then show ?thesis using step x1 by auto
  next
    case (Inr u)
    obtain x2 where x2: "sent (snd (upload_loop e a s ps w1)) = sent w1 @ x2"
        "\<forall>q\<in>set x2. req_url q = url @ ''/client-import/''"
      using Cons.IH [of w1] by auto
    have "sent (snd (upload_loop e a s (p # ps) w)) = sent w @ (x1 @ x2)"
      using step Inr x1 x2 by simp
    moreover have "\<forall>q\<in>set (x1 @ x2). req_url q = url @ ''/client-import/''"
      using x1 x2 by auto
    ultimately show ?thesis by blast
  qed
qed

lemma rstrip_no_trailing: "\<not> suffix [c] (rstrip c s)"
proof
  assume "suffix [c] (rstrip c s)"
  then obtain zs where "rstrip c s = zs @ [c]" by (auto simp: suffix_def)
  then have "rev (rstrip c s) = c # rev zs" by simp
  then have "dropWhile (\<lambda>x. x = c) (rev s) = c # rev zs" by (simp add: rstrip_def)
  then show False
    by (metis (full_types) hd_dropWhile list.sel(1) list.distinct(1))
qed

lemma link_stage_sent:
  assumes "cli_link c \<noteq> []" and "map_of s ''id'' = Some cid"
  shows "sent (snd (link_stage e (parse_args c) s w)) =
           sent w @ [\<lparr>req_url = cli_url c @ ''client-link/'',
                      req_data = [(''link'', JStr (cli_link c)), (''client'', cid)]\<rparr>]"
proof -
  have "sent (snd (link_account e (cli_link c) (cli_url c) cid w)) =
          sent w @ [\<lparr>req_url = cli_url c @ ''client-link/'',
                     req_data = [(''link'', JStr (cli_link c)), (''client'', cid)]\<rparr>]"
    by (rule link_account_sent)
  then show ?thesis
    using assms
    by (auto simp: link_stage_def arg_str_parse_args Let_def print_def save_settings_def
                   write_file_def
             split: sum.splits prod.splits error.splits)
qed

section \<open>The claims\<close>

text \<open>
  C1. The claim: loading a settings file that holds a JSON object with a valid
  \<open>id\<close> returns that id. The code does otherwise: \<open>load_settings\<close> reads the file
  once for the emptiness test and hands \<^verbatim>\<open>json.loads\<close> a second read of the same
  handle, which is the empty text. Whenever the file is not empty, and
  \<^verbatim>\<open>json.loads\<close> refuses the empty text as Python's does, the load raises
  \<open>JSONDecodeError\<close>; no stored id is ever returned.
\<close>

theorem load_settings_raises_on_stored_id:
  assumes "files w p = Some content"
      and "content \<noteq> []"
      and "json_loads e [] = Inl JSONDecodeError"
  shows "load_settings e p w = (Inl JSONDecodeError, w)"
  using assms by (rule load_settings_nonempty)

theorem load_settings_raises_on_stored_id_witness:
  "json_loads demo_env (demo_dumps (JObj demo_settings)) = Inr (JObj demo_settings)
   \<and> load_settings demo_env ''settings.txt''
        (demo_world\<lparr>files := (files demo_world)(''settings.txt'' \<mapsto> demo_dumps (JObj demo_settings))\<rparr>)
      = (Inl JSONDecodeError,
         demo_world\<lparr>files := (files demo_world)(''settings.txt'' \<mapsto> demo_dumps (JObj demo_settings))\<rparr>)"
proof -
  let ?w = "demo_world\<lparr>files := (files demo_world)(''settings.txt'' \<mapsto> demo_dumps (JObj demo_settings))\<rparr>"
  have h1: "files ?w ''settings.txt'' = Some (demo_dumps (JObj demo_settings))" by simp
  have h2: "demo_dumps (JObj demo_settings) \<noteq> []" by (simp add: demo_dumps_def)
  have h3: "json_loads demo_env [] = Inl JSONDecodeError"
    by (simp add: demo_env_def demo_loads_def demo_dumps_def)
  have d: "json_loads demo_env (demo_dumps (JObj demo_settings)) = Inr (JObj demo_settings)"
    by (simp add: demo_env_def demo_loads_def)
  from load_settings_raises_on_stored_id [OF h1 h2 h3] d show ?thesis by simp
qed

text \<open>
  C2. The claim: \<open>save_settings\<close> followed by \<open>load_settings\<close> gives back every
  key that was saved. The code does otherwise: what \<^verbatim>\<open>json.dumps\<close> writes is never
  the empty text, so the load that follows reads a non-empty file and raises
  \<open>JSONDecodeError\<close>, for the reason given at C1.
\<close>

theorem save_then_load_raises:
  assumes "json_dumps e (JObj s) \<noteq> []"
      and "json_loads e [] = Inl JSONDecodeError"
  shows "load_settings e p (save_settings e s p w) = (Inl JSONDecodeError, save_settings e s p w)"
proof -
  have "files (save_settings e s p w) p = Some (json_dumps e (JObj s))"
    by (simp add: save_settings_def write_file_def)
  then show ?thesis using assms by (rule load_settings_nonempty)
qed

theorem save_then_load_raises_witness:
  "load_settings demo_env ''settings.txt''
     (save_settings demo_env demo_settings ''settings.txt'' demo_world)
   = (Inl JSONDecodeError, save_settings demo_env demo_settings ''settings.txt'' demo_world)
   \<and> json_loads demo_env (json_dumps demo_env (JObj demo_settings)) = Inr (JObj demo_settings)"
proof -
  have h1: "json_dumps demo_env (JObj demo_settings) \<noteq> []"
    by (simp add: demo_env_def demo_dumps_def)
  have h2: "json_loads demo_env [] = Inl JSONDecodeError"
    by (simp add: demo_env_def demo_loads_def demo_dumps_def)
  have d: "json_loads demo_env (json_dumps demo_env (JObj demo_settings)) = Inr (JObj demo_settings)"
    by (simp add: demo_env_def demo_loads_def)
  from save_then_load_raises [OF h1 h2] d show ?thesis by simp
qed

text \<open>
  C3 as stated fails: in the sample run the second upload is answered with
  status 500 and the body \<^verbatim>\<open>server error\<close>, and no printed line holds that body.
\<close>

theorem upload_failure_message_counterexample:
  "server demo_env
       [\<lparr>req_url = ''http://127.0.0.1:8000/client-import/'',
         req_data = [(''playlist_name'', JStr ''mix''),
                     (''tracks'', JStr (demo_dumps (JArr [JStr ''a.mp3'']))),
                     (''client_id'', JStr ''abcdefghij0123456789'')]\<rparr>]
       \<lparr>req_url = ''http://127.0.0.1:8000/client-import/'',
        req_data = [(''playlist_name'', JStr ''rock''),
                    (''tracks'', JStr (demo_dumps (JArr [JStr ''b.mp3'']))),
                    (''client_id'', JStr ''abcdefghij0123456789'')]\<rparr>
     = Inr \<lparr>status_code = 500, resp_text = ''server error'',
            resp_reason = ''Internal Server Error''\<rparr>
   \<and> stdout (snd (upload_loop demo_env
         (dict_set (parse_args demo_cli) ''url'' (AStr ''http://127.0.0.1:8000''))
         demo_settings [''mix.m3u'', ''rock.m3u''] demo_world))
       = [''Imported mix.m3u to http://127.0.0.1:8000/list/abc123/'',
          ''Error adding rock.m3u: Internal Server Error'']
   \<and> \<not> sublist ''server error'' ''Imported mix.m3u to http://127.0.0.1:8000/list/abc123/''
   \<and> \<not> sublist ''server error'' ''Error adding rock.m3u: Internal Server Error''"
  by (simp add: run_defs demo_defs sublist_Cons_right)

text \<open>
  C3, as amended. For a playlist whose name splits into a name and a registered
  file type, whose file opens and parses, and whose upload is answered: with a
  status other than 200 the line printed is \<^verbatim>\<open>Error adding\<close>, the playlist and the
  reason phrase of the response (\<^verbatim>\<open>response.reason\<close>), not its body; with status
  200 the line printed is \<^verbatim>\<open>Imported\<close>, the playlist and the address made of the
  stripped URL, \<^verbatim>\<open>/list/\<close> and the body. In both cases the loop goes on with the
  playlists that remain.
\<close>

theorem upload_outcome_is_reported:
  assumes "split_on CHR ''.'' playlist = [name, filetype]"
      and "importer e (''import_'' @ filetype) = Some parse"
      and "files w playlist = Some content"
      and "parse content a = Inr tracks"
      and "arg_str a ''url'' = Inr url"
      and "map_of s ''id'' = Some cid"
      and "server e (sent w)
             \<lparr>req_url = url @ ''/client-import/'',
              req_data = [(''playlist_name'', JStr name),
                          (''tracks'', JStr (json_dumps e tracks)),
                          (''client_id'', cid)]\<rparr> = Inr r"
  shows "upload_loop e a s (playlist # rest) w =
           upload_loop e a s rest
             (print (if status_code r \<noteq> 200
                     then ''Error adding '' @ playlist @ '': '' @ resp_reason r
                     else ''Imported '' @ playlist @ '' to '' @ url @ ''/list/'' @ resp_text r @ ''/'')
                (w\<lparr>sent := sent w @
                   [\<lparr>req_url = url @ ''/client-import/'',
                     req_data = [(''playlist_name'', JStr name),
                                 (''tracks'', JStr (json_dumps e tracks)),
                                 (''client_id'', cid)]\<rparr>]\<rparr>))"
  using process_playlist_posted [OF assms(1-6)] assms(7) by simp

theorem upload_outcome_is_reported_witness:
  "stdout (snd (upload_loop demo_env
       (dict_set (parse_args demo_cli) ''url'' (AStr ''http://127.0.0.1:8000''))
       demo_settings [''mix.m3u'', ''rock.m3u''] demo_world))
     = [''Imported mix.m3u to http://127.0.0.1:8000/list/abc123/'',
        ''Error adding rock.m3u: Internal Server Error'']
   \<and> length (sent (snd (upload_loop demo_env
       (dict_set (parse_args demo_cli) ''url'' (AStr ''http://127.0.0.1:8000''))
       demo_settings [''mix.m3u'', ''rock.m3u''] demo_world))) = 2"
proof -
  let ?a = "dict_set (parse_args demo_cli) ''url'' (AStr ''http://127.0.0.1:8000'')"
  let ?cid = "JStr ''abcdefghij0123456789''"
  let ?q1 = "\<lparr>req_url = ''http://127.0.0.1:8000'' @ ''/client-import/'',
              req_data = [(''playlist_name'', JStr ''mix''),
                          (''tracks'', JStr (json_dumps demo_env (JArr [JStr ''a.mp3'']))),
                          (''client_id'', ?cid)]\<rparr>"
  let ?q2 = "\<lparr>req_url = ''http://127.0.0.1:8000'' @ ''/client-import/'',
              req_data = [(''playlist_name'', JStr ''rock''),
                          (''tracks'', JStr (json_dumps demo_env (JArr [JStr ''b.mp3'']))),
                          (''client_id'', ?cid)]\<rparr>"
  let ?r1 = "\<lparr>status_code = 200, resp_text = ''abc123'', resp_reason = ''OK''\<rparr>"
  let ?r2 = "\<lparr>status_code = 500, resp_text = ''server error'',
              resp_reason = ''Internal Server Error''\<rparr>"
  let ?w1 = "print (if status_code ?r1 \<noteq> 200
                    then ''Error adding '' @ ''mix.m3u'' @ '': '' @ resp_reason ?r1
                    else ''Imported '' @ ''mix.m3u'' @ '' to '' @ ''http://127.0.0.1:8000'' @
                         ''/list/'' @ resp_text ?r1 @ ''/'')
              (demo_world\<lparr>sent := sent demo_world @ [?q1]\<rparr>)"
  let ?w2 = "print (if status_code ?r2 \<noteq> 200
                    then ''Error adding '' @ ''rock.m3u'' @ '': '' @ resp_reason ?r2
                    else ''Imported '' @ ''rock.m3u'' @ '' to '' @ ''http://127.0.0.1:8000'' @
                         ''/list/'' @ resp_text ?r2 @ ''/'')
              (?w1\<lparr>sent := sent ?w1 @ [?q2]\<rparr>)"
  have imp: "importer demo_env (''import_'' @ ''m3u'') = Some demo_parser"
    by (simp add: demo_env_def)
  have url: "arg_str ?a ''url'' = Inr ''http://127.0.0.1:8000''"
    by (simp add: arg_str_def parse_args_def)
  have cid: "map_of demo_settings ''id'' = Some ?cid" by (simp add: demo_settings_def)
  have s1: "split_on CHR ''.'' ''mix.m3u'' = [''mix'', ''m3u'']" by simp
  have f1: "files demo_world ''mix.m3u'' = Some ''a.mp3''" by (simp add: demo_world_def)
  have p1: "demo_parser ''a.mp3'' ?a = Inr (JArr [JStr ''a.mp3''])" by (simp add: demo_parser_def)
  have v1: "server demo_env (sent demo_world) ?q1 = Inr ?r1"
    by (simp add: demo_env_def demo_server_def)
  have s2: "split_on CHR ''.'' ''rock.m3u'' = [''rock'', ''m3u'']" by simp
  have f2: "files ?w1 ''rock.m3u'' = Some ''b.mp3''" by (simp add: demo_world_def print_def)
  have p2: "demo_parser ''b.mp3'' ?a = Inr (JArr [JStr ''b.mp3''])" by (simp add: demo_parser_def)
  have v2: "server demo_env (sent ?w1) ?q2 = Inr ?r2"
    by (simp add: demo_env_def demo_server_def)
  have "upload_loop demo_env ?a demo_settings [''mix.m3u'', ''rock.m3u''] demo_world
          = upload_loop demo_env ?a demo_settings [''rock.m3u''] ?w1"
    by (rule upload_outcome_is_reported [OF s1 imp f1 p1 url cid v1])
  also have "\<dots> = upload_loop demo_env ?a demo_settings [] ?w2"
    by (rule upload_outcome_is_reported [OF s2 imp f2 p2 url cid v2])
  finally have run: "upload_loop demo_env ?a demo_settings [''mix.m3u'', ''rock.m3u''] demo_world
          = (Finished, ?w2)" by simp
  show ?thesis
    unfolding run by (simp add: print_def demo_world_def)
qed

text \<open>
  C4. The claim: on a reset the file cleared is the settings file that was being
  loaded, and the load that follows behaves as on an empty file. The code does
  otherwise: the reset looks up \<^verbatim>\<open>args['settings']\<close>, a key \<open>parse_args\<close> never
  defines, so answering \<^verbatim>\<open>y\<close> ends the run with \<open>KeyError\<close>; no file is cleared
  and no second load happens.
\<close>

theorem reset_raises_key_error:
  assumes "cli_playlist c \<noteq> []"
      and "files w (cli_settings_file c) = Some content"
      and "content \<noteq> []"
      and "json_loads e [] = Inl JSONDecodeError"
      and "stdin w = answer # later"
      and "lower answer = ''y''"
  shows "fst (main e c w) = Raised (KeyError ''settings'')
         \<and> files (snd (main e c w)) = files w"
proof -
  let ?w1 = "print (repr_args e (parse_args c)) w"
  have f: "files ?w1 (cli_settings_file c) = Some content"
    using assms(2) by (simp add: print_def)
  have l: "load_settings e (cli_settings_file c) ?w1 = (Inl JSONDecodeError, ?w1)"
    using f assms(3) assms(4) by (rule load_settings_nonempty)
  have "load_stage e (parse_args c) ?w1 =
          (Inl (Raised (KeyError ''settings'')),
           (print (''Error loading settings from '' @ cli_settings_file c @
                   '' (malformed file). Delete '' @ cli_settings_file c @
                   '' to fix this? (y/N)'') ?w1)\<lparr>stdin := later\<rparr>)"
    using l assms(5) assms(6)
    by (simp add: load_stage_def arg_str_parse_args Let_def input_def print_def)
  then show ?thesis
    using assms(1) by (simp add: main_def Let_def arg_list_parse_args print_def)
qed

theorem reset_raises_key_error_witness:
  "fst (main demo_env demo_cli
         (demo_world\<lparr>files := (files demo_world)(''settings.txt'' \<mapsto> ''{''), stdin := [''Y'']\<rparr>))
     = Raised (KeyError ''settings'')
   \<and> files (snd (main demo_env demo_cli
         (demo_world\<lparr>files := (files demo_world)(''settings.txt'' \<mapsto> ''{''), stdin := [''Y'']\<rparr>)))
       ''settings.txt'' = Some ''{''"
proof -
  let ?w = "demo_world\<lparr>files := (files demo_world)(''settings.txt'' \<mapsto> ''{''), stdin := [''Y'']\<rparr>"
  have h1: "cli_playlist demo_cli \<noteq> []" by (simp add: demo_cli_def)
  have h2: "files ?w (cli_settings_file demo_cli) = Some ''{''" by (simp add: demo_cli_def)
  have h3: "''{'' \<noteq> []" by simp
  have h4: "json_loads demo_env [] = Inl JSONDecodeError"
    by (simp add: demo_env_def demo_loads_def demo_dumps_def)
  have h5: "stdin ?w = ''Y'' # []" by simp
  have h6: "lower ''Y'' = ''y''" by (simp add: lower_def lower_char_def)
  from reset_raises_key_error [OF h1 h2 h3 h4 h5 h6] show ?thesis by simp
qed

text \<open>
  C5. A playlist argument whose name does not hold exactly one dot makes the
  body of the loop raise \<open>ValueError\<close> when it splits the name; nothing catches
  it, so the whole run ends there with that exception: the world is the one the
  playlists before it left, and the playlists after it are never looked at.
\<close>

theorem bad_playlist_name_aborts_run:
  assumes "cli_playlist c = before @ playlist # rest"
      and "count_list playlist CHR ''.'' \<noteq> 1"
      and "load_stage e (parse_args c) (print (repr_args e (parse_args c)) w) = (Inr s, w2)"
      and "link_stage e (parse_args c) s w2 = (Inr s1, w3)"
      and "truthy (dict_get s1 ''link'')"
      and "upload_loop e (dict_set (parse_args c) ''url'' (AStr (rstrip CHR ''/'' (cli_url c))))
             s1 before w3 = (Finished, w4)"
  shows "process_playlist e (dict_set (parse_args c) ''url'' (AStr (rstrip CHR ''/'' (cli_url c))))
           s1 playlist w4 = (Inl ValueError, w4)
         \<and> main e c w = (Raised ValueError, w4)"
proof -
  let ?a = "dict_set (parse_args c) ''url'' (AStr (rstrip CHR ''/'' (cli_url c)))"
  have step: "process_playlist e ?a s1 playlist w4 = (Inl ValueError, w4)"
    using assms(2) by (rule process_playlist_bad_name)
  have "cli_playlist c \<noteq> []" using assms(1) by simp
  then have "main e c w = upload_loop e ?a s1 (before @ playlist # rest) w3"
    using main_upload [OF _ assms(3) assms(4) assms(5)] assms(1) by simp
  also have "\<dots> = upload_loop e ?a s1 (playlist # rest) w4"
    by (simp add: upload_loop_append assms(6))
  also have "\<dots> = (Raised ValueError, w4)"
    by (simp add: step)
  finally show ?thesis using step by simp
qed

theorem bad_playlist_name_aborts_run_witness:
  "fst (main demo_env (demo_cli\<lparr>cli_playlist := [''mix.xyz'', ''./mix.m3u'', ''mix.m3u'']\<rparr>) demo_world)
     = Raised ValueError
   \<and> length (sent (snd (main demo_env
         (demo_cli\<lparr>cli_playlist := [''mix.xyz'', ''./mix.m3u'', ''mix.m3u'']\<rparr>) demo_world))) = 1"
proof -
  let ?c = "demo_cli\<lparr>cli_playlist := [''mix.xyz'', ''./mix.m3u'', ''mix.m3u'']\<rparr>"
  let ?L = "load_stage demo_env (parse_args ?c) (print (repr_args demo_env (parse_args ?c)) demo_world)"
  let ?s = "projr (fst ?L)"
  let ?K = "link_stage demo_env (parse_args ?c) ?s (snd ?L)"
  let ?s1 = "projr (fst ?K)"
  let ?a = "dict_set (parse_args ?c) ''url'' (AStr (rstrip CHR ''/'' (cli_url ?c)))"
  let ?U = "upload_loop demo_env ?a ?s1 [''mix.xyz''] (snd ?K)"
  have h1: "cli_playlist ?c = [''mix.xyz''] @ ''./mix.m3u'' # [''mix.m3u'']"
    by (simp add: demo_cli_def)
  have h2: "count_list ''./mix.m3u'' CHR ''.'' \<noteq> 1" by simp
  have h3: "?L = (Inr ?s, snd ?L)"
    by (simp add: run_defs demo_defs)
  have h4: "?K = (Inr ?s1, snd ?K)"
    by (simp add: run_defs demo_defs)
  have h5: "truthy (dict_get ?s1 ''link'')"
    by (simp add: run_defs demo_defs)
  have h6: "?U = (Finished, snd ?U)"
    by (simp add: run_defs demo_defs)
  have h7: "length (sent (snd ?U)) = 1"
    by (simp add: run_defs demo_defs)
  from bad_playlist_name_aborts_run [OF h1 h2 h3 h4 h5 h6] h7
  show ?thesis by simp
qed

text \<open>
  C6. When the server answers the link request with a status other than 200,
  \<open>link_account\<close> raises \<open>ConnectionError\<close> carrying the body of the response;
  the run prints it and exits with status 1. The files are the ones the load
  left (the settings are not saved again, no \<open>link\<close> is stored), and the link
  request is the only request sent: no upload is attempted.
\<close>

theorem failed_link_aborts_run:
  assumes "cli_playlist c \<noteq> []"
      and "load_stage e (parse_args c) (print (repr_args e (parse_args c)) w) = (Inr s, w2)"
      and "cli_link c \<noteq> []"
      and "server e (sent w2)
             \<lparr>req_url = cli_url c @ ''client-link/'',
              req_data = [(''link'', JStr (cli_link c)), (''client'', dict_get s ''id'')]\<rparr> = Inr r"
      and "status_code r \<noteq> 200"
  shows "fst (link_account e (cli_link c) (cli_url c) (dict_get s ''id'') w2)
           = Inl (ConnectionError (resp_text r))
         \<and> main e c w =
             (Exited 1,
              print (''Error linking account ('' @ resp_text r @ '').'')
                (w2\<lparr>sent := sent w2 @
                   [\<lparr>req_url = cli_url c @ ''client-link/'',
                     req_data = [(''link'', JStr (cli_link c)), (''client'', dict_get s ''id'')]\<rparr>]\<rparr>))
         \<and> files (snd (main e c w)) = files w2
         \<and> sent (snd (main e c w)) = sent w2 @
               [\<lparr>req_url = cli_url c @ ''client-link/'',
                 req_data = [(''link'', JStr (cli_link c)), (''client'', dict_get s ''id'')]\<rparr>]"
proof -
  let ?q = "\<lparr>req_url = cli_url c @ ''client-link/'',
             req_data = [(''link'', JStr (cli_link c)), (''client'', dict_get s ''id'')]\<rparr>"
  obtain cid where cid: "map_of s ''id'' = Some cid"
    using load_stage_id [OF assms(2)] by auto
  then have get: "dict_get s ''id'' = cid" by (simp add: dict_get_def)
  have la: "link_account e (cli_link c) (cli_url c) cid w2 =
              (Inl (ConnectionError (resp_text r)), w2\<lparr>sent := sent w2 @ [?q]\<rparr>)"
    using link_account_fail [OF assms(4) assms(5)] get by simp
  have ls: "link_stage e (parse_args c) s w2 =
              (Inl (Exited 1),
               print (''Error linking account ('' @ resp_text r @ '').'') (w2\<lparr>sent := sent w2 @ [?q]\<rparr>))"
    using assms(3) cid la by (simp add: link_stage_def arg_str_parse_args)
  have m: "main e c w =
             (Exited 1,
              print (''Error linking account ('' @ resp_text r @ '').'') (w2\<lparr>sent := sent w2 @ [?q]\<rparr>))"
    using assms(1) assms(2) ls by (simp add: main_def Let_def arg_list_parse_args)
  show ?thesis
    using la get m by (simp add: print_def)
qed

theorem failed_link_aborts_run_witness:
  "fst (main demo_env (demo_cli\<lparr>cli_link := ''bad''\<rparr>) demo_world) = Exited 1
   \<and> last (stdout (snd (main demo_env (demo_cli\<lparr>cli_link := ''bad''\<rparr>) demo_world)))
       = ''Error linking account (bad code).''
   \<and> files (snd (main demo_env (demo_cli\<lparr>cli_link := ''bad''\<rparr>) demo_world)) ''settings.txt''
       = Some []
   \<and> length (sent (snd (main demo_env (demo_cli\<lparr>cli_link := ''bad''\<rparr>) demo_world))) = 1"
proof -
  let ?c = "demo_cli\<lparr>cli_link := ''bad''\<rparr>"
  let ?L = "load_stage demo_env (parse_args ?c) (print (repr_args demo_env (parse_args ?c)) demo_world)"
  let ?s = "projr (fst ?L)"
  let ?r = "\<lparr>status_code = 403, resp_text = ''bad code'', resp_reason = ''Forbidden''\<rparr>"
  have h1: "cli_playlist ?c \<noteq> []" by (simp add: demo_cli_def)
  have h2: "?L = (Inr ?s, snd ?L)" by (simp add: run_defs demo_defs)
  have h3: "cli_link ?c \<noteq> []" by simp
  have h4: "server demo_env (sent (snd ?L))
              \<lparr>req_url = cli_url ?c @ ''client-link/'',
               req_data = [(''link'', JStr (cli_link ?c)), (''client'', dict_get ?s ''id'')]\<rparr> = Inr ?r"
    by (simp add: run_defs demo_defs)
  have h5: "status_code ?r \<noteq> 200" by simp
  have f: "files (snd ?L) ''settings.txt'' = Some []" by (simp add: run_defs demo_defs)
  have n: "sent (snd ?L) = []" by (simp add: run_defs demo_defs)
  from failed_link_aborts_run [OF h1 h2 h3 h4 h5] f n
  show ?thesis by (simp add: print_def)
qed

text \<open>
  C7. When the server answers the link request with status 200, the settings
  get \<open>link\<close> equal to the submitted code, the whole settings dict is written to
  the settings file, and only then does the run enter the loop over the
  playlists: the loop starts from the world in which the file is already
  written and in which the link request is the only request sent.
\<close>

theorem successful_link_is_saved:
  assumes "cli_playlist c \<noteq> []"
      and "load_stage e (parse_args c) (print (repr_args e (parse_args c)) w) = (Inr s, w2)"
      and "cli_link c \<noteq> []"
      and "server e (sent w2)
             \<lparr>req_url = cli_url c @ ''client-link/'',
              req_data = [(''link'', JStr (cli_link c)), (''client'', dict_get s ''id'')]\<rparr> = Inr r"
      and "status_code r = 200"
  shows "dict_get (dict_set s ''link'' (JStr (cli_link c))) ''link'' = JStr (cli_link c)
         \<and> link_stage e (parse_args c) s w2 =
             (Inr (dict_set s ''link'' (JStr (cli_link c))),
              save_settings e (dict_set s ''link'' (JStr (cli_link c))) (cli_settings_file c)
                (print ''Link successful''
                   (w2\<lparr>sent := sent w2 @
                      [\<lparr>req_url = cli_url c @ ''client-link/'',
                        req_data = [(''link'', JStr (cli_link c)), (''client'', dict_get s ''id'')]\<rparr>]\<rparr>)))
         \<and> files (snd (link_stage e (parse_args c) s w2)) (cli_settings_file c)
             = Some (json_dumps e (JObj (dict_set s ''link'' (JStr (cli_link c)))))
         \<and> sent (snd (link_stage e (parse_args c) s w2)) = sent w2 @
               [\<lparr>req_url = cli_url c @ ''client-link/'',
                 req_data = [(''link'', JStr (cli_link c)), (''client'', dict_get s ''id'')]\<rparr>]
         \<and> main e c w =
             upload_loop e (dict_set (parse_args c) ''url'' (AStr (rstrip CHR ''/'' (cli_url c))))
               (dict_set s ''link'' (JStr (cli_link c))) (cli_playlist c)
               (snd (link_stage e (parse_args c) s w2))"
proof -
  let ?q = "\<lparr>req_url = cli_url c @ ''client-link/'',
             req_data = [(''link'', JStr (cli_link c)), (''client'', dict_get s ''id'')]\<rparr>"
  let ?s1 = "dict_set s ''link'' (JStr (cli_link c))"
  let ?w3 = "save_settings e ?s1 (cli_settings_file c)
               (print ''Link successful'' (w2\<lparr>sent := sent w2 @ [?q]\<rparr>))"
  obtain cid where cid: "map_of s ''id'' = Some cid"
    using load_stage_id [OF assms(2)] by auto
  then have get: "dict_get s ''id'' = cid" by (simp add: dict_get_def)
  have la: "link_account e (cli_link c) (cli_url c) cid w2 = (Inr (), w2\<lparr>sent := sent w2 @ [?q]\<rparr>)"
    using link_account_ok [OF assms(4) assms(5)] get by simp
  have ls: "link_stage e (parse_args c) s w2 = (Inr ?s1, ?w3)"
    using assms(3) cid la by (simp add: link_stage_def arg_str_parse_args Let_def)
  have tr: "truthy (dict_get ?s1 ''link'')"
    using assms(3) by (simp add: dict_get_dict_set)
  have m: "main e c w =
             upload_loop e (dict_set (parse_args c) ''url'' (AStr (rstrip CHR ''/'' (cli_url c))))
               ?s1 (cli_playlist c) ?w3"
    by (rule main_upload [OF assms(1) assms(2) ls tr])
  have f: "files ?w3 (cli_settings_file c) = Some (json_dumps e (JObj ?s1))"
    by (simp add: save_settings_def write_file_def)
  have se: "sent ?w3 = sent w2 @ [?q]"
    by (simp add: save_settings_def write_file_def print_def)
  show ?thesis
    using ls m f se by (simp add: dict_get_dict_set)
qed

theorem successful_link_is_saved_witness:
  "files (snd (link_stage demo_env (parse_args demo_cli)
       (projr (fst (load_stage demo_env (parse_args demo_cli)
          (print (repr_args demo_env (parse_args demo_cli)) demo_world))))
       (snd (load_stage demo_env (parse_args demo_cli)
          (print (repr_args demo_env (parse_args demo_cli)) demo_world))))) ''settings.txt''
     = Some (demo_dumps (JObj [(''id'', JStr ''abcdefghijklmnopqrst''), (''link'', JStr ''good'')]))
   \<and> fst (main demo_env demo_cli demo_world) = Finished"
proof -
  let ?c = "demo_cli"
  let ?L = "load_stage demo_env (parse_args ?c) (print (repr_args demo_env (parse_args ?c)) demo_world)"
  let ?s = "projr (fst ?L)"
  let ?r = "\<lparr>status_code = 200, resp_text = ''linked'', resp_reason = ''OK''\<rparr>"
  have h1: "cli_playlist ?c \<noteq> []" by (simp add: demo_cli_def)
  have h2: "?L = (Inr ?s, snd ?L)" by (simp add: run_defs demo_defs)
  have h3: "cli_link ?c \<noteq> []" by (simp add: demo_cli_def)
  have h4: "server demo_env (sent (snd ?L))
              \<lparr>req_url = cli_url ?c @ ''client-link/'',
               req_data = [(''link'', JStr (cli_link ?c)), (''client'', dict_get ?s ''id'')]\<rparr> = Inr ?r"
    by (simp add: run_defs demo_defs)
  have h5: "status_code ?r = 200" by simp
  have s: "?s = [(''id'', JStr ''abcdefghijklmnopqrst'')]"
    by (simp add: run_defs demo_defs alphabet_def random_choice_def upt_rec)
  have cs: "cli_settings_file ?c = ''settings.txt''" "json_dumps demo_env = demo_dumps"
           "cli_link ?c = ''good''"
    by (simp_all add: demo_cli_def demo_env_def)
  note t = successful_link_is_saved [OF h1 h2 h3 h4 h5]
  have a: "files (snd (link_stage demo_env (parse_args ?c) ?s (snd ?L))) ''settings.txt''
             = Some (demo_dumps (JObj [(''id'', JStr ''abcdefghijklmnopqrst''), (''link'', JStr ''good'')]))"
    using t [THEN conjunct2, THEN conjunct2, THEN conjunct1] unfolding cs s by simp
  have b: "fst (main demo_env demo_cli demo_world) = Finished"
    unfolding t [THEN conjunct2, THEN conjunct2, THEN conjunct2, THEN conjunct2]
    by (simp add: run_defs demo_defs)
  show ?thesis using a b by simp
qed

text \<open>
  C8. When the settings hold no truthy \<open>link\<close> after the link step, the run
  prints the guidance and exits with status 0; it has sent no request at all,
  so no upload.
\<close>

theorem unlinked_run_uploads_nothing:
  assumes "cli_playlist c \<noteq> []"
      and "load_stage e (parse_args c) (print (repr_args e (parse_args c)) w) = (Inr s, w2)"
      and "link_stage e (parse_args c) s w2 = (Inr s1, w3)"
      and "\<not> truthy (dict_get s1 ''link'')"
  shows "main e c w =
           (Exited 0,
            print (''No account linked. Get a link code from '' @ LINK_CODE_HELP_URL @
                   '' and run '' @ argv0 e @ '' -l [code]'') w3)
         \<and> sent (snd (main e c w)) = sent w"
proof -
  have nocode: "cli_link c = []"
  proof (rule ccontr)
    assume ne: "cli_link c \<noteq> []"
    then have "s1 = dict_set s ''link'' (JStr (cli_link c))"
      using assms(3) by (rule link_stage_linked)
    then have "truthy (dict_get s1 ''link'')"
      using ne by (simp add: dict_get_dict_set)
    with assms(4) show False by simp
  qed
  then have same: "w3 = w2"
    using assms(3) by (simp add: link_stage_no_code)
  have "sent (snd (load_stage e (parse_args c) (print (repr_args e (parse_args c)) w)))
          = sent (print (repr_args e (parse_args c)) w)"
    by (rule load_stage_sent)
  then have s2: "sent w2 = sent w"
    using assms(2) by (simp add: print_def)
  have m: "main e c w =
           (Exited 0,
            print (''No account linked. Get a link code from '' @ LINK_CODE_HELP_URL @
                   '' and run '' @ argv0 e @ '' -l [code]'') w3)"
    using assms by (simp add: main_def Let_def arg_list_parse_args)
  show ?thesis
    using m same s2 by (simp add: print_def)
qed

theorem unlinked_run_uploads_nothing_witness:
  "fst (main demo_env (demo_cli\<lparr>cli_link := []\<rparr>) demo_world) = Exited 0
   \<and> sent (snd (main demo_env (demo_cli\<lparr>cli_link := []\<rparr>) demo_world)) = []"
proof -
  let ?c = "demo_cli\<lparr>cli_link := []\<rparr>"
  let ?L = "load_stage demo_env (parse_args ?c) (print (repr_args demo_env (parse_args ?c)) demo_world)"
  let ?s = "projr (fst ?L)"
  let ?K = "link_stage demo_env (parse_args ?c) ?s (snd ?L)"
  let ?s1 = "projr (fst ?K)"
  have h1: "cli_playlist ?c \<noteq> []" by (simp add: demo_cli_def)
  have h2: "?L = (Inr ?s, snd ?L)" by (simp add: run_defs demo_defs)
  have h3: "?K = (Inr ?s1, snd ?K)" by (simp add: run_defs demo_defs)
  have h4: "\<not> truthy (dict_get ?s1 ''link'')" by (simp add: run_defs demo_defs)
  note t = unlinked_run_uploads_nothing [OF h1 h2 h3 h4]
  have a: "fst (main demo_env ?c demo_world) = Exited 0"
    by (simp add: t [THEN conjunct1])
  have b: "sent (snd (main demo_env ?c demo_world)) = sent demo_world"
    by (rule t [THEN conjunct2])
  have "sent demo_world = []" by (simp add: demo_world_def)
  with a b show ?thesis by simp
qed

text \<open>
  C9 as stated fails: a playlist whose file type has no parser is not always
  reported and skipped. With a second dot in its name, as in \<^verbatim>\<open>./mix.xyz\<close> or
  \<^verbatim>\<open>my.mix.xyz\<close>, the split raises \<open>ValueError\<close> before the parser is looked up:
  nothing is printed for it and the playlist after it is never processed.
\<close>

theorem unknown_filetype_counterexample:
  "importer demo_env (''import_'' @ ''xyz'') = None
   \<and> split_on CHR ''.'' ''./mix.xyz'' = ['''', ''/mix'', ''xyz'']
   \<and> upload_loop demo_env (dict_set (parse_args demo_cli) ''url'' (AStr ''http://127.0.0.1:8000''))
         demo_settings [''./mix.xyz'', ''mix.m3u''] demo_world
       = (Raised ValueError, demo_world)
   \<and> split_on CHR ''.'' ''my.mix.xyz'' = [''my'', ''mix'', ''xyz'']
   \<and> upload_loop demo_env (dict_set (parse_args demo_cli) ''url'' (AStr ''http://127.0.0.1:8000''))
         demo_settings [''my.mix.xyz'', ''mix.m3u''] demo_world
       = (Raised ValueError, demo_world)
   \<and> stdout demo_world = []
   \<and> sent demo_world = []"
  by (simp add: process_playlist_def demo_env_def demo_world_def)

text \<open>
  C9, as amended. For a playlist whose name holds exactly one dot, so that it
  splits into a name and a file type (\<open>split_on_two\<close>): when the module
  \<^verbatim>\<open>importer\<close> has no attribute \<^verbatim>\<open>import_\<close> followed by the file type, the body of
  the loop prints \<^verbatim>\<open>Invalid filetype\<close> with the file type for that playlist, raises
  nothing, and the loop goes on with the playlists that remain; when it has
  one, that parser is the one applied to the file, and the tracks it returns
  are the ones posted.
\<close>

theorem one_dot_unknown_filetype_is_skipped:
  assumes "split_on CHR ''.'' playlist = [name, filetype]"
  shows "(importer e (''import_'' @ filetype) = None \<longrightarrow>
            process_playlist e a s playlist w =
              (Inr (),
               w\<lparr>stdout := stdout w @
                  [''Invalid filetype '' @ [CHR 0x22] @ ''.'' @ filetype @ [CHR 0x22]]\<rparr>)
            \<and> upload_loop e a s (playlist # rest) w =
              upload_loop e a s rest
                (w\<lparr>stdout := stdout w @
                   [''Invalid filetype '' @ [CHR 0x22] @ ''.'' @ filetype @ [CHR 0x22]]\<rparr>))
         \<and> (importer e (''import_'' @ filetype) = Some parse
              \<and> files w playlist = Some content
              \<and> parse content a = Inr tracks
              \<and> arg_str a ''url'' = Inr url
              \<and> map_of s ''id'' = Some cid \<longrightarrow>
            sent (snd (process_playlist e a s playlist w)) =
              sent w @ [\<lparr>req_url = url @ ''/client-import/'',
                         req_data = [(''playlist_name'', JStr name),
                                     (''tracks'', JStr (json_dumps e tracks)),
                                     (''client_id'', cid)]\<rparr>])"
proof (intro conjI impI)
  assume n: "importer e (''import_'' @ filetype) = None"
  show "process_playlist e a s playlist w =
              (Inr (),
               w\<lparr>stdout := stdout w @
                  [''Invalid filetype '' @ [CHR 0x22] @ ''.'' @ filetype @ [CHR 0x22]]\<rparr>)"
    using process_playlist_unknown [OF assms n] by (simp add: print_def)
  then show "upload_loop e a s (playlist # rest) w =
               upload_loop e a s rest
                (w\<lparr>stdout := stdout w @
                   [''Invalid filetype '' @ [CHR 0x22] @ ''.'' @ filetype @ [CHR 0x22]]\<rparr>)"
    by simp
next
  assume h: "importer e (''import_'' @ filetype) = Some parse
              \<and> files w playlist = Some content
              \<and> parse content a = Inr tracks
              \<and> arg_str a ''url'' = Inr url
              \<and> map_of s ''id'' = Some cid"
  note p = process_playlist_posted [OF assms h [THEN conjunct1]
        h [THEN conjunct2, THEN conjunct1]
        h [THEN conjunct2, THEN conjunct2, THEN conjunct1]
        h [THEN conjunct2, THEN conjunct2, THEN conjunct2, THEN conjunct1]
        h [THEN conjunct2, THEN conjunct2, THEN conjunct2, THEN conjunct2]]
  show "sent (snd (process_playlist e a s playlist w)) =
              sent w @ [\<lparr>req_url = url @ ''/client-import/'',
                         req_data = [(''playlist_name'', JStr name),
                                     (''tracks'', JStr (json_dumps e tracks)),
                                     (''client_id'', cid)]\<rparr>]"
    unfolding p by (simp add: print_def split: sum.splits)
qed

theorem one_dot_unknown_filetype_is_skipped_witness:
  "stdout (snd (upload_loop demo_env
       (dict_set (parse_args demo_cli) ''url'' (AStr ''http://127.0.0.1:8000''))
       demo_settings [''mix.xyz'', ''mix.m3u''] demo_world))
     = [''Invalid filetype '' @ [CHR 0x22] @ ''.xyz'' @ [CHR 0x22],
        ''Imported mix.m3u to http://127.0.0.1:8000/list/abc123/'']
   \<and> sent (snd (process_playlist demo_env
              (dict_set (parse_args demo_cli) ''url'' (AStr ''http://127.0.0.1:8000''))
              demo_settings ''mix.m3u'' demo_world))
     = [\<lparr>req_url = ''http://127.0.0.1:8000/client-import/'',
         req_data = [(''playlist_name'', JStr ''mix''),
                     (''tracks'', JStr (demo_dumps (JArr [JStr ''a.mp3'']))),
                     (''client_id'', JStr ''abcdefghij0123456789'')]\<rparr>]"
proof -
  let ?a = "dict_set (parse_args demo_cli) ''url'' (AStr ''http://127.0.0.1:8000'')"
  let ?w1 = "demo_world\<lparr>stdout := stdout demo_world @
               [''Invalid filetype '' @ [CHR 0x22] @ ''.'' @ ''xyz'' @ [CHR 0x22]]\<rparr>"
  have s1: "split_on CHR ''.'' ''mix.xyz'' = [''mix'', ''xyz'']" by simp
  have n1: "importer demo_env (''import_'' @ ''xyz'') = None" by (simp add: demo_env_def)
  have s2: "split_on CHR ''.'' ''mix.m3u'' = [''mix'', ''m3u'']" by simp
  have n2: "importer demo_env (''import_'' @ ''m3u'') = Some demo_parser
            \<and> files demo_world ''mix.m3u'' = Some ''a.mp3''
            \<and> demo_parser ''a.mp3'' ?a = Inr (JArr [JStr ''a.mp3''])
            \<and> arg_str ?a ''url'' = Inr ''http://127.0.0.1:8000''
            \<and> map_of demo_settings ''id'' = Some (JStr ''abcdefghij0123456789'')"
    by (simp add: demo_env_def demo_world_def demo_parser_def demo_settings_def
                  arg_str_def parse_args_def)
  have skip: "upload_loop demo_env ?a demo_settings [''mix.xyz'', ''mix.m3u''] demo_world
     = upload_loop demo_env ?a demo_settings [''mix.m3u''] ?w1"
    by (rule one_dot_unknown_filetype_is_skipped
          [OF s1, THEN conjunct1, THEN mp, OF n1, THEN conjunct2])
  have next_file: "stdout (snd (upload_loop demo_env ?a demo_settings [''mix.m3u''] ?w1))
     = [''Invalid filetype '' @ [CHR 0x22] @ ''.xyz'' @ [CHR 0x22],
        ''Imported mix.m3u to http://127.0.0.1:8000/list/abc123/'']"
    by (simp add: run_defs demo_defs)
  have b: "sent (snd (process_playlist demo_env ?a demo_settings ''mix.m3u'' demo_world))
     = sent demo_world @
       [\<lparr>req_url = ''http://127.0.0.1:8000'' @ ''/client-import/'',
         req_data = [(''playlist_name'', JStr ''mix''),
                     (''tracks'', JStr (json_dumps demo_env (JArr [JStr ''a.mp3'']))),
                     (''client_id'', JStr ''abcdefghij0123456789'')]\<rparr>]"
    by (rule one_dot_unknown_filetype_is_skipped [OF s2, THEN conjunct2, THEN mp, OF n2])
  have c: "sent demo_world = []" "json_dumps demo_env = demo_dumps"
    by (simp_all add: demo_world_def demo_env_def)
  show ?thesis using next_file b unfolding skip c by simp
qed

text \<open>
  C10. The claim: every trailing slash of the server URL is stripped before the
  URL is used for a request, the link request included. The code does
  otherwise for the link request: the stripping stands after the link step, and
  \<open>link_account\<close> appends \<^verbatim>\<open>client-link/\<close> to the URL as it was given. In every
  run with a link code whose settings load, the request that follows the load
  goes to that address. A URL given without a trailing slash, which the import
  requests accept, therefore sends the link request to an address with no slash
  before \<^verbatim>\<open>client-link/\<close>.
\<close>

theorem link_request_keeps_url_as_given:
  assumes "cli_playlist c \<noteq> []"
      and "load_stage e (parse_args c) (print (repr_args e (parse_args c)) w) = (Inr s, w2)"
      and "cli_link c \<noteq> []"
  shows "prefix
           (sent w2 @ [\<lparr>req_url = cli_url c @ ''client-link/'',
                        req_data = [(''link'', JStr (cli_link c)),
                                    (''client'', dict_get s ''id'')]\<rparr>])
           (sent (snd (main e c w)))"
proof -
  let ?q = "\<lparr>req_url = cli_url c @ ''client-link/'',
             req_data = [(''link'', JStr (cli_link c)), (''client'', dict_get s ''id'')]\<rparr>"
  let ?a = "dict_set (parse_args c) ''url'' (AStr (rstrip CHR ''/'' (cli_url c)))"
  obtain cid where cid: "map_of s ''id'' = Some cid"
    using load_stage_id [OF assms(2)] by auto
  then have get: "dict_get s ''id'' = cid" by (simp add: dict_get_def)
  obtain res w3 where k: "link_stage e (parse_args c) s w2 = (res, w3)"
    by (cases "link_stage e (parse_args c) s w2")
  have s3: "sent w3 = sent w2 @ [?q]"
    using link_stage_sent [OF assms(3) cid, of e w2] k get by simp
  show ?thesis
  proof (cases res)
    case (Inl out)
    then have "main e c w = (out, w3)"
      using assms(1) assms(2) k by (simp add: main_def Let_def arg_list_parse_args)
    then show ?thesis using s3 by simp
  next
    case (Inr s1)
    show ?thesis
    proof (cases "truthy (dict_get s1 ''link'')")
      case False
      then have "sent (snd (main e c w)) = sent w3"
        using assms(1) assms(2) k Inr
        by (simp add: main_def Let_def arg_list_parse_args print_def)
      then show ?thesis using s3 by simp
    next
      case True
      have m: "main e c w = upload_loop e ?a s1 (cli_playlist c) w3"
        using main_upload [OF assms(1) assms(2) _ True] k Inr by simp
      obtain extra where "sent (snd (upload_loop e ?a s1 (cli_playlist c) w3)) = sent w3 @ extra"
        using upload_loop_urls [OF args_url_stripped(1)] by blast
      then show ?thesis using m s3 by (simp add: prefix_def)
    qed
  qed
qed

theorem link_request_keeps_url_as_given_witness:
  "req_url (hd (sent (snd (main demo_env (demo_cli\<lparr>cli_url := ''http://127.0.0.1:8000''\<rparr>)
       demo_world)))) = ''http://127.0.0.1:8000client-link/''
   \<and> fst (main demo_env (demo_cli\<lparr>cli_url := ''http://127.0.0.1:8000''\<rparr>) demo_world) = Exited 1
   \<and> req_url (hd (sent (snd (process_playlist demo_env
        (dict_set (parse_args (demo_cli\<lparr>cli_url := ''http://127.0.0.1:8000''\<rparr>)) ''url''
           (AStr (rstrip CHR ''/'' ''http://127.0.0.1:8000'')))
        demo_settings ''mix.m3u'' demo_world)))) = ''http://127.0.0.1:8000/client-import/''"
proof -
  let ?c = "demo_cli\<lparr>cli_url := ''http://127.0.0.1:8000''\<rparr>"
  let ?L = "load_stage demo_env (parse_args ?c) (print (repr_args demo_env (parse_args ?c)) demo_world)"
  let ?s = "projr (fst ?L)"
  let ?q = "\<lparr>req_url = cli_url ?c @ ''client-link/'',
             req_data = [(''link'', JStr (cli_link ?c)), (''client'', dict_get ?s ''id'')]\<rparr>"
  have h1: "cli_playlist ?c \<noteq> []" by (simp add: demo_cli_def)
  have h2: "?L = (Inr ?s, snd ?L)" by (simp add: run_defs demo_defs)
  have h3: "cli_link ?c \<noteq> []" by (simp add: demo_cli_def)
  have n2: "sent (snd ?L) = []" by (simp add: run_defs demo_defs)
  have "prefix (sent (snd ?L) @ [?q]) (sent (snd (main demo_env ?c demo_world)))"
    by (rule link_request_keeps_url_as_given [OF h1 h2 h3])
  then obtain rest where "sent (snd (main demo_env ?c demo_world)) = ?q # rest"
    unfolding n2 by (auto simp: prefix_def)
  then have a: "req_url (hd (sent (snd (main demo_env ?c demo_world))))
                  = ''http://127.0.0.1:8000client-link/''"
    by simp
  have b: "fst (main demo_env ?c demo_world) = Exited 1"
    by (simp add: run_defs demo_defs)
  have d: "req_url (hd (sent (snd (process_playlist demo_env
        (dict_set (parse_args ?c) ''url'' (AStr (rstrip CHR ''/'' ''http://127.0.0.1:8000'')))
        demo_settings ''mix.m3u'' demo_world)))) = ''http://127.0.0.1:8000/client-import/''"
    by (simp add: run_defs demo_defs)
  show ?thesis using a b d by simp
qed

section \<open>Further properties\<close>

text \<open>
  X1. A batch in which every playlist has a name that splits into a name and a
  registered file type, a file that opens and a parser that returns, sent to a
  server that answers every request, is processed to the end whatever the
  statuses of the answers: one request is posted and one line printed for each
  playlist.
\<close>

theorem whole_batch_is_attempted:
  assumes "arg_str a ''url'' = Inr url"
      and "map_of s ''id'' = Some cid"
      and "\<forall>p\<in>set ps. \<exists>name filetype parse content tracks.
             split_on CHR ''.'' p = [name, filetype]
             \<and> importer e (''import_'' @ filetype) = Some parse
             \<and> files w p = Some content
             \<and> parse content a = Inr tracks"
      and "\<forall>h q. \<not> isl (server e h q)"
  shows "fst (upload_loop e a s ps w) = Finished
         \<and> length (sent (snd (upload_loop e a s ps w))) = length (sent w) + length ps
         \<and> length (stdout (snd (upload_loop e a s ps w))) = length (stdout w) + length ps"
  using assms(3)
proof (induction ps arbitrary: w)
  case Nil
  show ?case by simp
next
  case (Cons p ps)
  from Cons.prems obtain name filetype parse content tracks where
    p: "split_on CHR ''.'' p = [name, filetype]"
       "importer e (''import_'' @ filetype) = Some parse"
       "files w p = Some content"
       "parse content a = Inr tracks"
    by auto
  let ?q = "\<lparr>req_url = url @ ''/client-import/'',
             req_data = [(''playlist_name'', JStr name),
                         (''tracks'', JStr (json_dumps e tracks)),
                         (''client_id'', cid)]\<rparr>"
  obtain r where r: "server e (sent w) ?q = Inr r"
    using assms(4) by (cases "server e (sent w) ?q") (auto simp: isl_def)
  let ?w1 = "print (if status_code r \<noteq> 200
                    then ''Error adding '' @ p @ '': '' @ resp_reason r
                    else ''Imported '' @ p @ '' to '' @ url @ ''/list/'' @ resp_text r @ ''/'')
               (w\<lparr>sent := sent w @ [?q]\<rparr>)"
  have step: "upload_loop e a s (p # ps) w = upload_loop e a s ps ?w1"
    using process_playlist_posted [OF p assms(1) assms(2)] r by simp
  have fs: "files ?w1 = files w" by (simp add: print_def)
  have "\<forall>p\<in>set ps. \<exists>name filetype parse content tracks.
             split_on CHR ''.'' p = [name, filetype]
             \<and> importer e (''import_'' @ filetype) = Some parse
             \<and> files ?w1 p = Some content
             \<and> parse content a = Inr tracks"
    using Cons.prems unfolding fs by simp
  from Cons.IH [OF this] show ?case
    unfolding step by (simp add: print_def)
qed

theorem whole_batch_is_attempted_witness:
  "fst (upload_loop demo_env (dict_set (parse_args demo_cli) ''url'' (AStr ''http://127.0.0.1:8000''))
          demo_settings [''mix.m3u'', ''rock.m3u''] demo_world) = Finished
   \<and> length (sent (snd (upload_loop demo_env
          (dict_set (parse_args demo_cli) ''url'' (AStr ''http://127.0.0.1:8000''))
          demo_settings [''mix.m3u'', ''rock.m3u''] demo_world))) = 2"
proof -
  let ?a = "dict_set (parse_args demo_cli) ''url'' (AStr ''http://127.0.0.1:8000'')"
  have h1: "arg_str ?a ''url'' = Inr ''http://127.0.0.1:8000''"
    by (simp add: arg_str_def parse_args_def)
  have h2: "map_of demo_settings ''id'' = Some (JStr ''abcdefghij0123456789'')"
    by (simp add: demo_settings_def)
  have m: "split_on CHR ''.'' ''mix.m3u'' = [''mix'', ''m3u'']
           \<and> importer demo_env (''import_'' @ ''m3u'') = Some demo_parser
           \<and> files demo_world ''mix.m3u'' = Some ''a.mp3''
           \<and> demo_parser ''a.mp3'' ?a = Inr (JArr [JStr ''a.mp3''])"
    by (simp add: demo_env_def demo_world_def demo_parser_def)
  have k: "split_on CHR ''.'' ''rock.m3u'' = [''rock'', ''m3u'']
           \<and> importer demo_env (''import_'' @ ''m3u'') = Some demo_parser
           \<and> files demo_world ''rock.m3u'' = Some ''b.mp3''
           \<and> demo_parser ''b.mp3'' ?a = Inr (JArr [JStr ''b.mp3''])"
    by (simp add: demo_env_def demo_world_def demo_parser_def)
  have h3: "\<forall>p\<in>set [''mix.m3u'', ''rock.m3u'']. \<exists>name filetype parse content tracks.
             split_on CHR ''.'' p = [name, filetype]
             \<and> importer demo_env (''import_'' @ filetype) = Some parse
             \<and> files demo_world p = Some content
             \<and> parse content ?a = Inr tracks"
    using m k by (metis empty_iff empty_set set_ConsD)
  have h4: "\<forall>h q. \<not> isl (server demo_env h q)"
    by (simp add: demo_env_def demo_server_def)
  have "sent demo_world = []" by (simp add: demo_world_def)
  with whole_batch_is_attempted [OF h1 h2 h3 h4] show ?thesis by simp
qed

text \<open>
  X2. Loading a settings file that is missing or empty returns settings that
  hold only an \<open>id\<close> of 20 characters, each a lowercase letter or a digit; a
  missing file has been created empty.
\<close>

lemma fresh_id_shape:
  "length (fst (random_client_id e w)) = 20
   \<and> set (fst (random_client_id e w)) \<subseteq> set alphabet"
proof -
  have "\<And>i. random_choice e alphabet i \<in> set alphabet"
    by (simp add: random_choice_def alphabet_def del: set_simps)
  then show ?thesis
    by (auto simp: random_client_id_def)
qed

theorem empty_file_yields_fresh_id:
  assumes "files w p = None \<or> files w p = Some []"
  shows "\<exists>cid w'. load_settings e p w = (Inr [(''id'', JStr cid)], w')
           \<and> length cid = 20 \<and> set cid \<subseteq> set alphabet
           \<and> files w' p = Some []"
proof -
  let ?w1 = "if files w p = None then write_file p [] w else w"
  have f: "files ?w1 p = Some []"
    using assms by (auto simp: write_file_def)
  have "load_settings e p w =
          (Inr [(''id'', JStr (fst (random_client_id e ?w1)))], snd (random_client_id e ?w1))"
    using assms
    by (auto simp: load_settings_def fread_def write_file_def Let_def split: prod.splits)
  moreover have "files (snd (random_client_id e ?w1)) p = Some []"
    using f by (simp add: random_client_id_def)
  ultimately show ?thesis
    using fresh_id_shape [of e ?w1] by blast
qed

theorem empty_file_yields_fresh_id_witness:
  "\<exists>cid w'. load_settings demo_env ''settings.txt'' demo_world = (Inr [(''id'', JStr cid)], w')
     \<and> length cid = 20 \<and> set cid \<subseteq> set alphabet
     \<and> files w' ''settings.txt'' = Some []"
proof -
  have "files demo_world ''settings.txt'' = None \<or> files demo_world ''settings.txt'' = Some []"
    by (simp add: demo_world_def)
  then show ?thesis by (rule empty_file_yields_fresh_id)
qed

text \<open>
  X3. In a run that reaches the loop, every request sent after the link step
  goes to the server URL with all its trailing slashes stripped, followed by
  \<^verbatim>\<open>/client-import/\<close>, and the stripped URL ends in no slash.
\<close>

theorem import_requests_use_stripped_url:
  assumes "cli_playlist c \<noteq> []"
      and "load_stage e (parse_args c) (print (repr_args e (parse_args c)) w) = (Inr s, w2)"
      and "link_stage e (parse_args c) s w2 = (Inr s1, w3)"
      and "truthy (dict_get s1 ''link'')"
  shows "(\<forall>q\<in>set (drop (length (sent w3)) (sent (snd (main e c w)))).
            req_url q = rstrip CHR ''/'' (cli_url c) @ ''/client-import/'')
         \<and> \<not> suffix ''/'' (rstrip CHR ''/'' (cli_url c))"
proof -
  let ?a = "dict_set (parse_args c) ''url'' (AStr (rstrip CHR ''/'' (cli_url c)))"
  have m: "main e c w = upload_loop e ?a s1 (cli_playlist c) w3"
    by (rule main_upload [OF assms])
  obtain extra where ex: "sent (snd (upload_loop e ?a s1 (cli_playlist c) w3)) = sent w3 @ extra"
      "\<forall>q\<in>set extra. req_url q = rstrip CHR ''/'' (cli_url c) @ ''/client-import/''"
    using upload_loop_urls [OF args_url_stripped(1)] by blast
  have "\<forall>q\<in>set (drop (length (sent w3)) (sent (snd (main e c w)))).
               req_url q = rstrip CHR ''/'' (cli_url c) @ ''/client-import/''"
    using m ex by simp
  then show ?thesis
    using rstrip_no_trailing [of "CHR ''/''" "cli_url c"] by simp
qed

theorem import_requests_use_stripped_url_witness:
  "list_all (\<lambda>q. req_url q = ''http://127.0.0.1:8000/client-import/'')
       (drop 1 (sent (snd (main demo_env demo_cli demo_world))))
   \<and> length (sent (snd (main demo_env demo_cli demo_world))) = 3"
proof -
  let ?c = "demo_cli"
  let ?L = "load_stage demo_env (parse_args ?c) (print (repr_args demo_env (parse_args ?c)) demo_world)"
  let ?s = "projr (fst ?L)"
  let ?K = "link_stage demo_env (parse_args ?c) ?s (snd ?L)"
  let ?s1 = "projr (fst ?K)"
  have h1: "cli_playlist ?c \<noteq> []" by (simp add: demo_cli_def)
  have h2: "?L = (Inr ?s, snd ?L)" by (simp add: run_defs demo_defs)
  have h3: "?K = (Inr ?s1, snd ?K)" by (simp add: run_defs demo_defs)
  have h4: "truthy (dict_get ?s1 ''link'')" by (simp add: run_defs demo_defs)
  note t = import_requests_use_stripped_url [OF h1 h2 h3 h4]
  have n3: "length (sent (snd ?K)) = 1" by (simp add: run_defs demo_defs)
  have st: "rstrip CHR ''/'' (cli_url ?c) = ''http://127.0.0.1:8000''"
    by (simp add: demo_cli_def rstrip_def)
  have a: "list_all (\<lambda>q. req_url q = ''http://127.0.0.1:8000/client-import/'')
       (drop 1 (sent (snd (main demo_env demo_cli demo_world))))"
    using t [THEN conjunct1] n3 st by (simp add: list_all_iff)
  have b: "length (sent (snd (main demo_env demo_cli demo_world))) = 3"
    by (simp add: run_defs demo_defs)
  show ?thesis using a b by simp
qed

end
